theory Spec2Isabelle
  imports Main "HOL-Library.AList"
begin

section \<open>The CNTK sample installer (bindings/python/cntk/sample\_installer.py)\<close>

text \<open>
  The script has two pure functions on the module's version string
  (\<open>module_is_unreleased\<close>, \<open>default_sample_url\<close>) and one procedure
  (\<open>install_samples\<close>) that talks to the file system, the network, the package
  manager and standard output. The pure functions are embedded as HOL functions on
  \<open>string\<close>; the procedure is embedded by explicit state passing over a record of
  the world it can change, with every exception as a value of a sum type.

  The module constant \<open>cntk.__version__\<close> is imported from outside the file; it is a
  parameter of every function that reads it.
\<close>

subsection \<open>Python string operations used by the script\<close>

text \<open>
  Strings are lists of 8-bit characters. Case mapping is the ASCII one: it agrees with
  Python on every ASCII string, which is what version strings are.
\<close>

definition ascii_upper :: "char \<Rightarrow> char" where
  "ascii_upper c =
     (let n = (of_char c :: nat) in if 97 \<le> n \<and> n \<le> 122 then char_of (n - 32) else c)"

definition ascii_lower :: "char \<Rightarrow> char" where
  "ascii_lower c =
     (let n = (of_char c :: nat) in if 65 \<le> n \<and> n \<le> 90 then char_of (n + 32) else c)"

text \<open>\<open>s.endswith(c)\<close> for a one-character suffix.\<close>

definition str_endswith :: "string \<Rightarrow> char \<Rightarrow> bool" where
  "str_endswith s c = (s \<noteq> [] \<and> last s = c)"

text \<open>\<open>s.replace(a, b)\<close> for one-character \<open>a\<close> and \<open>b\<close>.\<close>

definition str_replace :: "char \<Rightarrow> char \<Rightarrow> string \<Rightarrow> string" where
  "str_replace a b s = map (\<lambda>c. if c = a then b else c) s"

text \<open>
  \<open>s.split(sep)\<close> for a one-character separator: every occurrence splits, empty
  pieces are kept, and the empty string gives one empty piece.
\<close>

fun str_split :: "char \<Rightarrow> string \<Rightarrow> string list" where
  "str_split sep [] = [[]]"
| "str_split sep (c # cs) =
     (if c = sep then [] # str_split sep cs
      else (case str_split sep cs of
              [] \<Rightarrow> [[c]]
            | piece # pieces \<Rightarrow> (c # piece) # pieces))"

text \<open>\<open>sep.join(pieces)\<close>.\<close>

fun str_join :: "string \<Rightarrow> string list \<Rightarrow> string" where
  "str_join sep [] = []"
| "str_join sep [piece] = piece"
| "str_join sep (piece # more # pieces) = piece @ sep @ str_join sep (more # pieces)"

text \<open>\<open>s.capitalize()\<close>: the first character in upper case, the others in lower case.\<close>

fun str_capitalize :: "string \<Rightarrow> string" where
  "str_capitalize [] = []"
| "str_capitalize (c # cs) = ascii_upper c # map ascii_lower cs"

text \<open>
  \<open>string.capwords(s, sep)\<close> of the standard library, which is
  \<open>(sep or ' ').join(map(str.capitalize, s.split(sep)))\<close>, for a one-character \<open>sep\<close>.
\<close>

definition capwords :: "string \<Rightarrow> char \<Rightarrow> string" where
  "capwords s sep = str_join [sep] (map str_capitalize (str_split sep s))"

subsection \<open>The version-derived URL (lines 21 to 30)\<close>

definition module_is_unreleased :: "string \<Rightarrow> bool" where
  "module_is_unreleased version = str_endswith version CHR ''+''"

definition default_sample_url :: "string \<Rightarrow> string" where
  "default_sample_url version0 =
     (let version = (if module_is_unreleased version0 then butlast version0 else version0);
          version = str_replace CHR ''.'' CHR ''-'' version;
          version = capwords version CHR ''-''
      in ''https://cntk.ai/Samples/CNTK-Samples-'' @ version @ ''.zip'')"

subsection \<open>The world the installer acts on\<close>

text \<open>
  The file system is an association list from path strings to nodes. Paths are compared
  as the program writes them: no symbolic links, no \<open>.\<close> or \<open>..\<close> resolution, POSIX
  separators. A regular file holds its bytes.
\<close>

type_synonym path = string

datatype node = File string | Dir

type_synonym filesystem = "(path \<times> node) list"

text \<open>
  The exceptions that can leave \<open>install_samples\<close>. \<open>ValueError\<close> carries its message:
  the script raises it for an unusable destination, \<open>urllib\<close> raises it for a URL
  without a known scheme. \<open>OSError\<close> stands for each of its subclasses
  (\<open>FileNotFoundError\<close>, \<open>NotADirectoryError\<close>, \<open>IsADirectoryError\<close>, ...).
\<close>

datatype error =
    ValueError string
  | URLError
  | ContentTooShortError
  | BadZipFile
  | OSError
  | PipError

text \<open>
  What the network answers to one \<open>urlretrieve(url)\<close>: the URL is refused before
  anything is stored (\<open>Malformed\<close>: no known scheme; \<open>Unreachable\<close>: the connection or
  the HTTP request fails), the body breaks off after some bytes were stored in the
  temporary file (\<open>Truncated\<close>), or the whole body arrives (\<open>Complete\<close>).
\<close>

datatype response = Malformed | Unreachable | Truncated string | Complete string

text \<open>
  The members of a zip archive, in archive order: a regular file with its data, a
  directory (its name without the final slash), or a member whose local header is
  damaged. Member names are relative and already normalised.
\<close>

datatype member = FileEntry string string | DirEntry string | CorruptEntry string

text \<open>\<open>pip.main(args)\<close> returns an exit status or raises.\<close>

datatype pip_outcome = Exit int | Raises

text \<open>
  The collaborators the script reads but does not change: the module version, the
  network, the zip format (\<open>None\<close> for bytes that are no zip archive) and the package
  manager.
\<close>

record env =
  cntk_version :: string
  remote :: "string \<Rightarrow> response"
  zip_members :: "string \<Rightarrow> member list option"
  pip_main :: "string list \<Rightarrow> pip_outcome"

text \<open>
  What the script can change, with a log of each kind of call it makes: the URLs given
  to \<open>urlretrieve\<close>, the argument vectors given to \<open>pip.main\<close>, and the texts given to
  \<open>print\<close> (the text before \<open>textwrap.fill\<close> lays it out).
\<close>

record world =
  files :: filesystem
  fetched :: "string list"
  pip_calls :: "string list list"
  printed :: "string list"

subsection \<open>os and os.path\<close>

definition os_path_lexists :: "filesystem \<Rightarrow> path \<Rightarrow> bool" where
  "os_path_lexists fs p = (map_of fs p \<noteq> None)"

definition os_path_isdir :: "filesystem \<Rightarrow> path \<Rightarrow> bool" where
  "os_path_isdir fs p = (map_of fs p = Some Dir)"

definition os_path_isfile :: "filesystem \<Rightarrow> path \<Rightarrow> bool" where
  "os_path_isfile fs p = (case map_of fs p of Some (File body) \<Rightarrow> True | _ \<Rightarrow> False)"

text \<open>\<open>posixpath.join(a, b)\<close>.\<close>

definition os_path_join :: "path \<Rightarrow> path \<Rightarrow> path" where
  "os_path_join a b =
     (if b \<noteq> [] \<and> hd b = CHR ''/'' then b
      else if a = [] \<or> last a = CHR ''/'' then a @ b
      else a @ ''/'' @ b)"

text \<open>
  The names directly under a directory: the paths \<open>join(d, name)\<close> of the file system
  with a non-empty \<open>name\<close> that has no separator.
\<close>

definition dir_entries :: "filesystem \<Rightarrow> path \<Rightarrow> string list" where
  "dir_entries fs d =
     (let pre = os_path_join d [] in
      map (\<lambda>p. drop (length pre) p)
        (filter (\<lambda>p. take (length pre) p = pre \<and> drop (length pre) p \<noteq> []
                      \<and> CHR ''/'' \<notin> set (drop (length pre) p))
           (map fst fs)))"

definition os_listdir :: "filesystem \<Rightarrow> path \<Rightarrow> error + string list" where
  "os_listdir fs d = (if os_path_isdir fs d then Inr (dir_entries fs d) else Inl OSError)"

definition os_remove :: "path \<Rightarrow> filesystem \<Rightarrow> (error + unit) \<times> filesystem" where
  "os_remove p fs =
     (case map_of fs p of
        Some (File body) \<Rightarrow> (Inr (), AList.delete p fs)
      | _ \<Rightarrow> (Inl OSError, fs))"

subsection \<open>urlretrieve\<close>

text \<open>
  \<open>tempfile\<close> picks a name that no file has. The model picks one longer than every
  path of the file system.
\<close>

definition mktemp :: "filesystem \<Rightarrow> path" where
  "mktemp fs = ''/tmp/tmp'' @ replicate (Suc (length (concat (map fst fs)))) CHR ''_''"

text \<open>
  \<open>urlretrieve(url)\<close> with no file name: it opens the URL, then creates a temporary
  file that is kept on close, copies the body into it and returns its name, or raises
  \<open>ContentTooShortError\<close> when the body broke off. The headers it returns with the
  name are not used by the script. Only \<open>urlcleanup()\<close>, which the script never calls,
  removes the temporary file of a failed retrieval.
\<close>

definition urlretrieve :: "env \<Rightarrow> string \<Rightarrow> world \<Rightarrow> (error + path) \<times> world" where
  "urlretrieve e url w =
     (let w1 = w\<lparr>fetched := fetched w @ [url]\<rparr>;
          tmp = mktemp (files w)
      in case remote e url of
           Malformed \<Rightarrow> (Inl (ValueError (''unknown url type: '' @ url)), w1)
         | Unreachable \<Rightarrow> (Inl URLError, w1)
         | Truncated part \<Rightarrow>
             (Inl ContentTooShortError, w1\<lparr>files := AList.update tmp (File part) (files w)\<rparr>)
         | Complete body \<Rightarrow>
             (Inr tmp, w1\<lparr>files := AList.update tmp (File body) (files w)\<rparr>))"

subsection \<open>zipfile\<close>

text \<open>\<open>zipfile.ZipFile(name, 'r')\<close>: the members of the archive stored in the file.\<close>

definition zipfile_open :: "env \<Rightarrow> path \<Rightarrow> filesystem \<Rightarrow> error + member list" where
  "zipfile_open e name fs =
     (case map_of fs name of
        Some (File body) \<Rightarrow>
          (case zip_members e body of None \<Rightarrow> Inl BadZipFile | Some ms \<Rightarrow> Inr ms)
      | _ \<Rightarrow> Inl OSError)"

text \<open>
  The directories above a path, outermost first: the non-empty prefixes that end
  before a separator.
\<close>

fun dir_prefixes :: "string \<Rightarrow> string \<Rightarrow> path list" where
  "dir_prefixes seen [] = []"
| "dir_prefixes seen (c # cs) =
     (if c = CHR ''/'' \<and> seen \<noteq> [] then [seen] else []) @ dir_prefixes (seen @ [c]) cs"

text \<open>
  Creating the directories above a target: a missing one is created, an existing
  directory is kept, a regular file in the way is an error. What was created before
  the error stays.
\<close>

fun makedirs :: "path list \<Rightarrow> filesystem \<Rightarrow> (error + unit) \<times> filesystem" where
  "makedirs [] fs = (Inr (), fs)"
| "makedirs (d # ds) fs =
     (case map_of fs d of
        None \<Rightarrow> makedirs ds (AList.update d Dir fs)
      | Some Dir \<Rightarrow> makedirs ds fs
      | Some (File body) \<Rightarrow> (Inl OSError, fs))"

definition member_name :: "member \<Rightarrow> string" where
  "member_name m = (case m of FileEntry n d \<Rightarrow> n | DirEntry n \<Rightarrow> n | CorruptEntry n \<Rightarrow> n)"

text \<open>
  \<open>ZipFile._extract_member\<close>: the target is \<open>join(dir, name)\<close>; the directories above
  it are created; a directory member is created unless it is there; a file member is
  opened in the archive (which fails on a damaged header) and written over whatever
  regular file is at the target.
\<close>

definition extract_member :: "path \<Rightarrow> member \<Rightarrow> filesystem \<Rightarrow> (error + unit) \<times> filesystem" where
  "extract_member dir m fs =
     (let target = os_path_join dir (member_name m)
      in case makedirs (dir_prefixes [] target) fs of
           (Inl x, fs1) \<Rightarrow> (Inl x, fs1)
         | (Inr u, fs1) \<Rightarrow>
             (case m of
                DirEntry n \<Rightarrow>
                  (if os_path_isdir fs1 target then (Inr (), fs1)
                   else if os_path_lexists fs1 target then (Inl OSError, fs1)
                   else (Inr (), AList.update target Dir fs1))
              | CorruptEntry n \<Rightarrow> (Inl BadZipFile, fs1)
              | FileEntry n body \<Rightarrow>
                  (if os_path_isdir fs1 target then (Inl OSError, fs1)
                   else (Inr (), AList.update target (File body) fs1))))"

text \<open>\<open>ZipFile.extractall(dir)\<close>: member by member, stopping at the first error with no rollback.\<close>

fun extractall :: "path \<Rightarrow> member list \<Rightarrow> filesystem \<Rightarrow> (error + unit) \<times> filesystem" where
  "extractall dir [] fs = (Inr (), fs)"
| "extractall dir (m # ms) fs =
     (case extract_member dir m fs of
        (Inl x, fs1) \<Rightarrow> (Inl x, fs1)
      | (Inr u, fs1) \<Rightarrow> extractall dir ms fs1)"

subsection \<open>install\_samples (lines 32 to 73)\<close>

definition localdir_message :: string where
  "localdir_message = ''localdir parameter must be non-existing or point to an empty directory''"

definition unreleased_warning :: string where
  "unreleased_warning =
     ''WARNING: You are not on a released CNTK module version. '' @
     ''When running into problems running samples, please check '' @
     ''https://github.com/Microsoft/CNTK for updated versions''"

text \<open>
  The condition of line 44. \<open>and\<close> evaluates its right operand only when the left one
  holds, so \<open>os.listdir\<close> is called on a directory only.
\<close>

definition localdir_unusable :: "filesystem \<Rightarrow> path \<Rightarrow> error + bool" where
  "localdir_unusable fs localdir =
     (if os_path_lexists fs localdir then
        (if os_path_isdir fs localdir then
           (case os_listdir fs localdir of
              Inl x \<Rightarrow> Inl x
            | Inr names \<Rightarrow> Inr (\<not> (length names = 0)))
         else Inr True)
      else Inr False)"

text \<open>The local function of lines 47 to 49; \<open>quiet\<close> is the enclosing call's argument.\<close>

definition show_message :: "bool \<Rightarrow> string \<Rightarrow> world \<Rightarrow> world" where
  "show_message quiet txt w = (if \<not> quiet then w\<lparr>printed := printed w @ [txt]\<rparr> else w)"

text \<open>Python's \<open>not s\<close> for a value that is \<open>None\<close> or a string.\<close>

definition py_not :: "string option \<Rightarrow> bool" where
  "py_not s = (case s of None \<Rightarrow> True | Some t \<Rightarrow> t = [])"

text \<open>Lines 51 to 56: the URL to fetch, and the world after the warning, if any.\<close>

definition choose_url :: "env \<Rightarrow> string option \<Rightarrow> bool \<Rightarrow> world \<Rightarrow> string \<times> world" where
  "choose_url e url quiet w =
     (case (if py_not url then None else url) of
        None \<Rightarrow>
          (default_sample_url (cntk_version e),
           if module_is_unreleased (cntk_version e)
           then show_message quiet unreleased_warning w else w)
      | Some u \<Rightarrow> (u, w))"

text \<open>
  Lines 65 to 71, after the archive was extracted: the result and the world.
\<close>

definition install_requirements :: "env \<Rightarrow> path \<Rightarrow> bool \<Rightarrow> world \<Rightarrow> (error + unit) \<times> world" where
  "install_requirements e localdir quiet w =
     (let requirements_file = os_path_join localdir ''requirements.txt''
      in if os_path_isfile (files w) requirements_file then
           (let w1 = show_message quiet ''INFO: installing requirements'' w;
                args = [''install'', ''-r'', requirements_file];
                w2 = w1\<lparr>pip_calls := pip_calls w1 @ [args]\<rparr>
            in case pip_main e args of
                 Raises \<Rightarrow> (Inl PipError, w2)
               | Exit status \<Rightarrow> (Inr (), w2))
         else
           (Inr (), show_message quiet
              (''WARNING: file '' @ requirements_file @
               '' does not exist, modules to run the samples may be missing'') w))"

text \<open>
  The body of the \<open>try\<close> statement, lines 60 to 71: the result, the value of
  \<open>zip_filename\<close> when the body is left, and the world.
\<close>

definition try_body ::
  "env \<Rightarrow> string \<Rightarrow> path \<Rightarrow> bool \<Rightarrow> world \<Rightarrow> (error + unit) \<times> path option \<times> world" where
  "try_body e url localdir quiet w =
     (let w1 = show_message quiet (''INFO: retrieving '' @ url) w
      in case urlretrieve e url w1 of
           (Inl x, w2) \<Rightarrow> (Inl x, None, w2)
         | (Inr zip_filename, w2) \<Rightarrow>
             (let w3 = show_message quiet (''INFO: unzipping to directory '' @ localdir) w2
              in case zipfile_open e zip_filename (files w3) of
                   Inl x \<Rightarrow> (Inl x, Some zip_filename, w3)
                 | Inr zip_file \<Rightarrow>
                     (case extractall localdir zip_file (files w3) of
                        (Inl x, fs4) \<Rightarrow> (Inl x, Some zip_filename, w3\<lparr>files := fs4\<rparr>)
                      | (Inr u, fs4) \<Rightarrow>
                          (case install_requirements e localdir quiet (w3\<lparr>files := fs4\<rparr>) of
                             (r, w5) \<Rightarrow> (r, Some zip_filename, w5)))))"

text \<open>
  The \<open>finally\<close> clause, line 73, applied to how the body was left. An exception of
  \<open>os.remove\<close> replaces the body's result.
\<close>

definition finally_clause :: "(error + unit) \<times> path option \<times> world \<Rightarrow> (error + unit) \<times> world" where
  "finally_clause b =
     (case b of (r, zip_filename, w) \<Rightarrow>
        (if \<not> py_not zip_filename then
           (case zip_filename of
              None \<Rightarrow> (r, w)
            | Some name \<Rightarrow>
                (case os_remove name (files w) of
                   (Inl x, fs1) \<Rightarrow> (Inl x, w\<lparr>files := fs1\<rparr>)
                 | (Inr u, fs1) \<Rightarrow> (r, w\<lparr>files := fs1\<rparr>)))
         else (r, w)))"

definition install_samples ::
  "env \<Rightarrow> string option \<Rightarrow> path \<Rightarrow> bool \<Rightarrow> world \<Rightarrow> (error + unit) \<times> world" where
  "install_samples e url localdir quiet w =
     (case localdir_unusable (files w) localdir of
        Inl x \<Rightarrow> (Inl x, w)
      | Inr unusable \<Rightarrow>
          (if unusable then (Inl (ValueError localdir_message), w)
           else (case choose_url e url quiet w of
                   (url1, w1) \<Rightarrow> finally_clause (try_body e url1 localdir quiet w1))))"

subsection \<open>The command line (lines 76 to 89)\<close>

text \<open>
  What a command line gives the parser: a value for \<open>-u/--url\<close> or none, a value for
  \<open>-d/--dir\<close> or none, and whether \<open>-q/--quiet\<close> is there. How \<open>argparse\<close> reads these
  out of \<open>sys.argv\<close> is the library's; a command line it rejects never reaches
  \<open>install_samples\<close>.
\<close>

record arguments =
  arg_url :: "string option"
  arg_dir :: "string option"
  arg_quiet :: bool

record options =
  opt_url :: string
  opt_dir :: string
  opt_quiet :: bool

text \<open>The three \<open>add_argument\<close> calls with their defaults, and \<open>parse_args\<close>.\<close>

definition parse_args :: "env \<Rightarrow> arguments \<Rightarrow> options" where
  "parse_args e a =
     \<lparr>opt_url = (case arg_url a of None \<Rightarrow> default_sample_url (cntk_version e) | Some u \<Rightarrow> u),
      opt_dir = (case arg_dir a of None \<Rightarrow> ''.'' | Some d \<Rightarrow> d),
      opt_quiet = arg_quiet a\<rparr>"

definition main :: "env \<Rightarrow> arguments \<Rightarrow> world \<Rightarrow> (error + unit) \<times> world" where
  "main e a w =
     (let opts = parse_args e a
      in install_samples e (Some (opt_url opts)) (opt_dir opts) (opt_quiet opts) w)"

subsection \<open>A scenario to run the model on\<close>

text \<open>
  An unreleased module version, a network that serves four URLs, a package manager
  that fails with exit status 1, and an empty file system. The archive behind the
  default URL holds a requirements file; \<open>plain.zip\<close> holds none; the body of
  \<open>cut.zip\<close> breaks off; the second member of \<open>damaged.zip\<close> cannot be read.
\<close>

definition scenario_env :: env where
  "scenario_env =
     \<lparr>cntk_version = ''2.5.1+'',
      remote = (\<lambda>u.
        if u = ''https://cntk.ai/Samples/CNTK-Samples-2-5-1.zip'' then Complete ''PK-samples''
        else if u = ''https://example.org/plain.zip'' then Complete ''PK-plain''
        else if u = ''https://example.org/cut.zip'' then Truncated ''PK-sam''
        else if u = ''https://example.org/damaged.zip'' then Complete ''PK-damaged''
        else if u = ''example.org/samples.zip'' then Malformed
        else Unreachable),
      zip_members = (\<lambda>b.
        if b = ''PK-samples''
        then Some [FileEntry ''requirements.txt'' ''numpy'', FileEntry ''Examples/hello.py'' ''import cntk'']
        else if b = ''PK-plain'' then Some [FileEntry ''hello.py'' ''import cntk'']
        else if b = ''PK-damaged''
        then Some [FileEntry ''hello.py'' ''import cntk'', CorruptEntry ''data.bin'']
        else None),
      pip_main = (\<lambda>args. Exit 1)\<rparr>"

definition scenario_world :: world where
  "scenario_world = \<lparr>files = [], fetched = [], pip_calls = [], printed = []\<rparr>"

text \<open>The same file system with a non-empty directory \<open>out\<close>.\<close>

definition occupied_world :: world where
  "occupied_world = scenario_world\<lparr>files := [(''out'', Dir), (''out/notes.txt'', File ''x'')]\<rparr>"

text \<open>
  Two command lines: \<open>-d out\<close>, and \<open>-u '' -d out\<close> with an empty URL.
\<close>

definition default_command_line :: arguments where
  "default_command_line = \<lparr>arg_url = None, arg_dir = Some ''out'', arg_quiet = False\<rparr>"

definition empty_url_command_line :: arguments where
  "empty_url_command_line = \<lparr>arg_url = Some [], arg_dir = Some ''out'', arg_quiet = False\<rparr>"

section \<open>Properties\<close>

subsection \<open>Strings\<close>










lemma unreleased_butlast: "module_is_unreleased (v @ ''+'')" "butlast (v @ ''+'') = v"
  by (simp_all add: module_is_unreleased_def str_endswith_def)

subsection \<open>The version-derived URL\<close>

text \<open>
  Claim C4. A version string that ends in the marker \<open>+\<close> is unreleased, and its URL
  is the template filled with the version without that last character: dots replaced
  by dashes, then \<open>capwords\<close>. When what remains carries no marker of its own, this
  is the URL of the released version. The witness is the version \<open>2.5.1+\<close>, whose URL
  ends in \<open>CNTK-Samples-2-5-1.zip\<close>.
\<close>

theorem unreleased_version_url:
  "module_is_unreleased (v @ ''+'') \<and>
   default_sample_url (v @ ''+'') =
     ''https://cntk.ai/Samples/CNTK-Samples-'' @
       capwords (str_replace CHR ''.'' CHR ''-'' v) CHR ''-'' @ ''.zip'' \<and>
   (\<not> module_is_unreleased v \<longrightarrow> default_sample_url (v @ ''+'') = default_sample_url v)"
  by (simp add: default_sample_url_def unreleased_butlast)

theorem unreleased_version_url_witness:
  "module_is_unreleased ''2.5.1+'' \<and>
   default_sample_url ''2.5.1+'' = ''https://cntk.ai/Samples/CNTK-Samples-2-5-1.zip'' \<and>
   default_sample_url ''2.5.1+'' = default_sample_url ''2.5.1''"
proof -
  have n: "\<not> module_is_unreleased ''2.5.1''"
    by (simp add: module_is_unreleased_def str_endswith_def)
  have c: "capwords (str_replace CHR ''.'' CHR ''-'' ''2.5.1'') CHR ''-'' = ''2-5-1''"
    by (simp add: capwords_def str_replace_def ascii_upper_def ascii_lower_def)
  have d: "default_sample_url ''2.5.1'' = ''https://cntk.ai/Samples/CNTK-Samples-2-5-1.zip''"
    using n c by (simp add: default_sample_url_def)
  from unreleased_version_url [of "''2.5.1''"] c d show ?thesis by simp
qed



subsection \<open>The condition of line 44\<close>

lemma localdir_unusable_eq:
  "localdir_unusable fs d =
     Inr (os_path_lexists fs d \<and> \<not> (os_path_isdir fs d \<and> os_listdir fs d = Inr []))"
  by (simp add: localdir_unusable_def os_listdir_def)

subsection \<open>What each step leaves alone\<close>

lemma show_message_frame:
  "files (show_message q t w) = files w"
  "fetched (show_message q t w) = fetched w"
  "pip_calls (show_message q t w) = pip_calls w"
  "printed (show_message True t w) = printed w"
  "printed (show_message False t w) = printed w @ [t]"
  by (simp_all add: show_message_def)

lemma choose_url_frame:
  assumes "choose_url e url q w = (u, w1)"
  shows "files w1 = files w" "fetched w1 = fetched w" "pip_calls w1 = pip_calls w"
    and "q \<Longrightarrow> printed w1 = printed w"
  using assms by (auto simp: choose_url_def show_message_def split: option.splits if_splits)

lemma urlretrieve_frame:
  assumes "urlretrieve e u w = (r, w2)"
  shows "printed w2 = printed w" "pip_calls w2 = pip_calls w" "fetched w2 = fetched w @ [u]"
  using assms by (auto simp: urlretrieve_def Let_def split: response.splits)

lemma install_requirements_frame:
  assumes "install_requirements e d q w = (r, w5)"
  shows "files w5 = files w" "fetched w5 = fetched w"
    and "q \<Longrightarrow> printed w5 = printed w"
  using assms
  by (auto simp: install_requirements_def Let_def show_message_def
           split: pip_outcome.splits if_splits)

lemma try_body_quiet:
  assumes "try_body e u d True w = (r, z, w5)"
  shows "printed w5 = printed w"
proof -
  let ?w1 = "show_message True (''INFO: retrieving '' @ u) w"
  obtain r2 w2 where a: "urlretrieve e u ?w1 = (r2, w2)"
    by (cases "urlretrieve e u ?w1")
  have p2: "printed w2 = printed w"
    using urlretrieve_frame(1) [OF a] by (simp add: show_message_frame)
  show ?thesis
  proof (cases r2)
    case (Inl x)
    with a p2 assms show ?thesis by (simp add: try_body_def)
  next
    case (Inr name)
    let ?w3 = "show_message True (''INFO: unzipping to directory '' @ d) w2"
    have p3: "printed ?w3 = printed w" using p2 by (simp add: show_message_frame)
    show ?thesis
    proof (cases "zipfile_open e name (files ?w3)")
      case (Inl x)
      with a Inr p3 assms show ?thesis by (simp add: try_body_def)
    next
      case zf: (Inr ms)
      obtain r4 fs4 where x: "extractall d ms (files ?w3) = (r4, fs4)"
        by (cases "extractall d ms (files ?w3)")
      show ?thesis
      proof (cases r4)
        case (Inl y)
        with a Inr zf x p3 assms show ?thesis by (auto simp: try_body_def)
      next
        case y: (Inr un)
        obtain r5 w6 where i: "install_requirements e d True (?w3\<lparr>files := fs4\<rparr>) = (r5, w6)"
          by (cases "install_requirements e d True (?w3\<lparr>files := fs4\<rparr>)")
        have "printed w6 = printed w"
          using install_requirements_frame(3) [OF i] p3 by simp
        with a Inr zf x y i assms show ?thesis
          by (auto simp: try_body_def)
      qed
    qed
  qed
qed

lemma finally_clause_printed: "printed (snd (finally_clause (r, z, w))) = printed w"
  by (simp add: finally_clause_def split: option.splits prod.splits sum.splits)

subsection \<open>Quiet mode\<close>

text \<open>
  Claim C8. With \<open>quiet=True\<close> a call of \<open>install_samples\<close> prints nothing, however
  it ends: every text it prints goes through \<open>show_message\<close>. The witness is a quiet
  run of the scenario that fetches, extracts and calls the package manager.
\<close>

theorem quiet_prints_nothing:
  "printed (snd (install_samples e url localdir True w)) = printed w"
proof (cases "os_path_lexists (files w) localdir \<and>
              \<not> (os_path_isdir (files w) localdir \<and> os_listdir (files w) localdir = Inr [])")
  case True
  then show ?thesis by (simp add: install_samples_def localdir_unusable_eq)
next
  case False
  obtain u w1 where c: "choose_url e url True w = (u, w1)"
    by (cases "choose_url e url True w")
  have p1: "printed w1 = printed w"
    using choose_url_frame(4) [OF c] by simp
  obtain r z w5 where t: "try_body e u localdir True w1 = (r, z, w5)"
    by (cases "try_body e u localdir True w1") auto
  have "printed w5 = printed w1"
    using try_body_quiet [OF t] .
  with False c t p1 show ?thesis
    by (simp add: install_samples_def localdir_unusable_eq finally_clause_printed)
qed

theorem quiet_prints_nothing_witness:
  "printed (snd (install_samples scenario_env None ''out'' True scenario_world)) = []"
  using quiet_prints_nothing [of scenario_env None "''out''" scenario_world]
  by (simp add: scenario_world_def)

subsection \<open>Which exceptions a step can raise\<close>

lemma makedirs_error: "makedirs ds fs = (Inl x, fs1) \<Longrightarrow> x = OSError"
  by (induction ds arbitrary: fs) (auto split: option.splits node.splits)

lemma extract_member_error:
  "extract_member d m fs = (Inl x, fs1) \<Longrightarrow> x = OSError \<or> x = BadZipFile"
  by (auto simp: extract_member_def Let_def dest: makedirs_error
           split: prod.splits sum.splits member.splits if_splits)

lemma extractall_error:
  "extractall d ms fs = (Inl x, fs1) \<Longrightarrow> x = OSError \<or> x = BadZipFile"
proof (induction ms arbitrary: fs)
  case Nil
  then show ?case by simp
next
  case (Cons m ms)
  obtain r fs2 where e: "extract_member d m fs = (r, fs2)"
    by (cases "extract_member d m fs")
  show ?case
  proof (cases r)
    case (Inl y)
    with e Cons.prems have "y = x" by simp
    with e Inl show ?thesis using extract_member_error by blast
  next
    case (Inr u)
    with e Cons.prems have "extractall d ms fs2 = (Inl x, fs1)" by simp
    then show ?thesis by (rule Cons.IH)
  qed
qed

lemma zipfile_open_error: "zipfile_open e n fs = Inl x \<Longrightarrow> x = OSError \<or> x = BadZipFile"
  by (auto simp: zipfile_open_def split: option.splits node.splits)

lemma install_requirements_error:
  "install_requirements e d q w = (Inl x, w5) \<Longrightarrow> x = PipError"
  by (auto simp: install_requirements_def Let_def split: if_splits pip_outcome.splits)

lemma urlretrieve_error:
  "urlretrieve e u w = (Inl x, w2) \<Longrightarrow>
     x = ValueError (''unknown url type: '' @ u) \<or> x = URLError \<or> x = ContentTooShortError"
  by (auto simp: urlretrieve_def Let_def split: response.splits)

lemma try_body_error:
  assumes "try_body e u d q w = (Inl x, z, w5)"
  shows "x \<noteq> ValueError localdir_message"
proof -
  let ?w1 = "show_message q (''INFO: retrieving '' @ u) w"
  obtain r2 w2 where a: "urlretrieve e u ?w1 = (r2, w2)"
    by (cases "urlretrieve e u ?w1")
  show ?thesis
  proof (cases r2)
    case (Inl y)
    with a assms have "y = x" by (simp add: try_body_def)
    with a Inl urlretrieve_error [of e u ?w1 x w2] show ?thesis
      by (auto simp: localdir_message_def)
  next
    case (Inr name)
    let ?w3 = "show_message q (''INFO: unzipping to directory '' @ d) w2"
    show ?thesis
    proof (cases "zipfile_open e name (files ?w3)")
      case (Inl y)
      with a Inr assms have "y = x" by (simp add: try_body_def)
      with Inl zipfile_open_error show ?thesis by blast
    next
      case zf: (Inr ms)
      obtain r4 fs4 where x4: "extractall d ms (files ?w3) = (r4, fs4)"
        by (cases "extractall d ms (files ?w3)")
      show ?thesis
      proof (cases r4)
        case (Inl y)
        with a Inr zf x4 assms have "y = x" by (simp add: try_body_def)
        with x4 Inl extractall_error show ?thesis by blast
      next
        case y: (Inr un)
        obtain r5 w6 where i: "install_requirements e d q (?w3\<lparr>files := fs4\<rparr>) = (r5, w6)"
          by (cases "install_requirements e d q (?w3\<lparr>files := fs4\<rparr>)")
        with a Inr zf x4 y assms have "r5 = Inl x" by (simp add: try_body_def)
        with i install_requirements_error show ?thesis by blast
      qed
    qed
  qed
qed

lemma finally_clause_result:
  "finally_clause (r, z, w) = (r1, w1) \<Longrightarrow> r1 = r \<or> r1 = Inl OSError"
  by (auto simp: finally_clause_def os_remove_def
           split: option.splits prod.splits sum.splits if_splits node.splits)

lemma passed_check_error:
  assumes "localdir_unusable (files w) d = Inr False"
  shows "fst (install_samples e url d q w) \<noteq> Inl (ValueError localdir_message)"
proof -
  obtain u w1 where c: "choose_url e url q w = (u, w1)"
    by (cases "choose_url e url q w")
  obtain r z w5 where t: "try_body e u d q w1 = (r, z, w5)"
    by (cases "try_body e u d q w1") auto
  obtain r6 w6 where f: "finally_clause (r, z, w5) = (r6, w6)"
    by (cases "finally_clause (r, z, w5)")
  have "r \<noteq> Inl (ValueError localdir_message)"
    using try_body_error [of e u d q w1 _ z w5] t by auto
  with finally_clause_result [OF f] have "r6 \<noteq> Inl (ValueError localdir_message)" by auto
  with assms c t f show ?thesis by (simp add: install_samples_def)
qed

subsection \<open>The destination check\<close>

text \<open>
  Claim C2. \<open>install_samples\<close> raises the \<open>ValueError\<close> with the destination message
  exactly when the destination exists and is not a directory or is a directory with an
  entry. No later step raises that error, so a missing destination and an empty
  directory pass. The witness runs the four cases: a directory with a file in it, a
  missing path, an empty directory, a regular file.
\<close>

theorem invalid_destination_iff:
  "(fst (install_samples e url localdir quiet w) = Inl (ValueError localdir_message)) =
   (os_path_lexists (files w) localdir \<and>
      (\<not> os_path_isdir (files w) localdir \<or>
       (os_path_isdir (files w) localdir \<and> os_listdir (files w) localdir \<noteq> Inr [])))"
proof (cases "os_path_lexists (files w) localdir \<and>
              \<not> (os_path_isdir (files w) localdir \<and> os_listdir (files w) localdir = Inr [])")
  case True
  then have "fst (install_samples e url localdir quiet w) = Inl (ValueError localdir_message)"
    by (simp add: install_samples_def localdir_unusable_eq)
  with True show ?thesis by auto
next
  case False
  then have "localdir_unusable (files w) localdir = Inr False"
    by (simp add: localdir_unusable_eq)
  then have "fst (install_samples e url localdir quiet w) \<noteq> Inl (ValueError localdir_message)"
    by (rule passed_check_error)
  with False show ?thesis by auto
qed

theorem invalid_destination_iff_witness:
  "fst (install_samples scenario_env None ''out'' False occupied_world)
     = Inl (ValueError localdir_message)
   \<and> fst (install_samples scenario_env None ''out'' False scenario_world)
     \<noteq> Inl (ValueError localdir_message)
   \<and> fst (install_samples scenario_env None ''out'' False
            (scenario_world\<lparr>files := [(''out'', Dir)]\<rparr>))
     \<noteq> Inl (ValueError localdir_message)
   \<and> fst (install_samples scenario_env None ''out'' False
            (scenario_world\<lparr>files := [(''out'', File ''x'')]\<rparr>))
     = Inl (ValueError localdir_message)"
proof -
  have a: "fst (install_samples scenario_env None ''out'' False occupied_world)
             = Inl (ValueError localdir_message)"
    using invalid_destination_iff [of scenario_env None "''out''" False occupied_world]
    by (simp add: occupied_world_def scenario_world_def os_path_lexists_def os_path_isdir_def
          os_listdir_def dir_entries_def os_path_join_def)
  have b: "fst (install_samples scenario_env None ''out'' False scenario_world)
             \<noteq> Inl (ValueError localdir_message)"
    using invalid_destination_iff [of scenario_env None "''out''" False scenario_world]
    by (simp add: scenario_world_def os_path_lexists_def)
  have c: "fst (install_samples scenario_env None ''out'' False
                 (scenario_world\<lparr>files := [(''out'', Dir)]\<rparr>))
             \<noteq> Inl (ValueError localdir_message)"
    using invalid_destination_iff [of scenario_env None "''out''" False
            "scenario_world\<lparr>files := [(''out'', Dir)]\<rparr>"]
    by (simp add: scenario_world_def os_path_lexists_def os_path_isdir_def
          os_listdir_def dir_entries_def os_path_join_def)
  have d: "fst (install_samples scenario_env None ''out'' False
                 (scenario_world\<lparr>files := [(''out'', File ''x'')]\<rparr>))
             = Inl (ValueError localdir_message)"
    using invalid_destination_iff [of scenario_env None "''out''" False
            "scenario_world\<lparr>files := [(''out'', File ''x'')]\<rparr>"]
    by (simp add: scenario_world_def os_path_lexists_def os_path_isdir_def)
  from a b c d show ?thesis by simp
qed

text \<open>
  Claim C3. When the destination exists and is not an empty directory, the call ends
  with the \<open>ValueError\<close> and the world as it was: nothing fetched, no file created or
  changed, no call of the package manager, nothing printed.
\<close>

theorem invalid_destination_no_effect:
  assumes "os_path_lexists (files w) localdir"
      and "\<not> os_path_isdir (files w) localdir \<or> os_listdir (files w) localdir \<noteq> Inr []"
  shows "install_samples e url localdir quiet w = (Inl (ValueError localdir_message), w)"
  using assms by (auto simp: install_samples_def localdir_unusable_eq)

theorem invalid_destination_no_effect_witness:
  "install_samples scenario_env None ''out'' False occupied_world
     = (Inl (ValueError localdir_message), occupied_world)
   \<and> fetched (snd (install_samples scenario_env None ''out'' False occupied_world)) = []
   \<and> pip_calls (snd (install_samples scenario_env None ''out'' False occupied_world)) = []
   \<and> printed (snd (install_samples scenario_env None ''out'' False occupied_world)) = []
   \<and> files (snd (install_samples scenario_env None ''out'' False occupied_world))
       = [(''out'', Dir), (''out/notes.txt'', File ''x'')]"
proof -
  have "install_samples scenario_env None ''out'' False occupied_world
          = (Inl (ValueError localdir_message), occupied_world)"
    by (rule invalid_destination_no_effect)
       (simp_all add: occupied_world_def scenario_world_def os_path_lexists_def
          os_path_isdir_def os_listdir_def dir_entries_def os_path_join_def)
  then show ?thesis by (simp add: occupied_world_def scenario_world_def)
qed

subsection \<open>A regular file stays one during extraction\<close>

lemma isfile_iff: "os_path_isfile fs p = (\<exists>body. map_of fs p = Some (File body))"
  by (auto simp: os_path_isfile_def split: option.splits node.splits)

lemma isfile_update:
  assumes "os_path_isfile fs p" and "d = p \<Longrightarrow> \<exists>body. v = File body"
  shows "os_path_isfile (AList.update d v fs) p"
  using assms by (auto simp: isfile_iff update_conv')

lemma makedirs_isfile:
  "os_path_isfile fs p \<Longrightarrow> makedirs ds fs = (r, fs1) \<Longrightarrow> os_path_isfile fs1 p"
proof (induction ds arbitrary: fs)
  case Nil
  then show ?case by simp
next
  case (Cons d ds)
  show ?case
  proof (cases "map_of fs d")
    case None
    with Cons.prems(1) have "d \<noteq> p" by (auto simp: isfile_iff)
    with Cons.prems(1) have "os_path_isfile (AList.update d Dir fs) p"
      by (auto simp: isfile_iff update_conv')
    moreover from None Cons.prems(2) have "makedirs ds (AList.update d Dir fs) = (r, fs1)"
      by simp
    ultimately show ?thesis by (rule Cons.IH)
  next
    case (Some n)
    with Cons.prems Cons.IH [of fs] show ?thesis
      by (cases n) auto
  qed
qed

lemma extract_member_isfile:
  assumes "os_path_isfile fs p" and "extract_member d m fs = (r, fs1)"
  shows "os_path_isfile fs1 p"
proof -
  let ?t = "os_path_join d (member_name m)"
  obtain r0 fs0 where mk: "makedirs (dir_prefixes [] ?t) fs = (r0, fs0)"
    by (cases "makedirs (dir_prefixes [] ?t) fs")
  have f0: "os_path_isfile fs0 p"
    using assms(1) mk by (rule makedirs_isfile)
  show ?thesis
  proof (cases r0)
    case (Inl x)
    with mk assms(2) f0 show ?thesis by (simp add: extract_member_def)
  next
    case (Inr un)
    show ?thesis
    proof (cases m)
      case (FileEntry n body)
      with mk Inr assms(2) f0 show ?thesis
        by (auto simp: extract_member_def Let_def isfile_update split: if_splits)
    next
      case (DirEntry n)
      have "\<not> os_path_lexists fs0 ?t \<Longrightarrow> os_path_isfile (AList.update ?t Dir fs0) p"
        using f0 by (auto simp: os_path_lexists_def isfile_iff update_conv')
      with DirEntry mk Inr assms(2) f0 show ?thesis
        by (auto simp: extract_member_def Let_def split: if_splits)
    next
      case (CorruptEntry n)
      with mk Inr assms(2) f0 show ?thesis by (simp add: extract_member_def)
    qed
  qed
qed

lemma extractall_isfile:
  "os_path_isfile fs p \<Longrightarrow> extractall d ms fs = (r, fs1) \<Longrightarrow> os_path_isfile fs1 p"
proof (induction ms arbitrary: fs)
  case Nil
  then show ?case by simp
next
  case (Cons m ms)
  obtain r2 fs2 where e: "extract_member d m fs = (r2, fs2)"
    by (cases "extract_member d m fs")
  have f2: "os_path_isfile fs2 p"
    using Cons.prems(1) e by (rule extract_member_isfile)
  show ?case
  proof (cases r2)
    case (Inl x)
    with e Cons.prems(2) f2 show ?thesis by simp
  next
    case (Inr un)
    with e Cons.prems(2) have "extractall d ms fs2 = (r, fs1)" by simp
    with f2 show ?thesis by (rule Cons.IH)
  qed
qed

subsection \<open>The temporary file\<close>

lemma mktemp_not_empty: "mktemp fs \<noteq> []"
  by (simp add: mktemp_def)

text \<open>The name is one no node of the file system has.\<close>

lemma path_length_bound: "p \<in> set ps \<Longrightarrow> length p \<le> length (concat ps)"
  by (induction ps) auto

lemma mktemp_fresh: "\<not> os_path_lexists fs (mktemp fs)"
proof
  assume "os_path_lexists fs (mktemp fs)"
  then have "mktemp fs \<in> set (map fst fs)"
    by (auto simp: os_path_lexists_def dest: map_of_SomeD intro: rev_image_eqI)
  then have "length (mktemp fs) \<le> length (concat (map fst fs))"
    by (rule path_length_bound)
  then show False by (simp add: mktemp_def)
qed

lemma urlretrieve_complete:
  assumes "remote e u = Complete body"
  shows "urlretrieve e u w =
           (Inr (mktemp (files w)),
            w\<lparr>fetched := fetched w @ [u],
               files := AList.update (mktemp (files w)) (File body) (files w)\<rparr>)"
  using assms by (simp add: urlretrieve_def Let_def)


lemma finally_clause_removes:
  assumes "p \<noteq> []" and "os_path_isfile (files w) p"
  shows "finally_clause (r, Some p, w) = (r, w\<lparr>files := AList.delete p (files w)\<rparr>)"
  using assms by (auto simp: finally_clause_def py_not_def os_remove_def isfile_iff)




subsection \<open>After a successful extraction\<close>

lemma install_samples_extracted:
  assumes "localdir_unusable (files w) d = Inr False"
      and "choose_url e url q w = (u, w1)"
      and "remote e u = Complete body"
      and "zip_members e body = Some ms"
      and "extractall d ms (AList.update (mktemp (files w)) (File body) (files w)) = (Inr (), fs4)"
      and "install_requirements e d q
             (show_message q (''INFO: unzipping to directory '' @ d)
                (show_message q (''INFO: retrieving '' @ u) w1)
              \<lparr>fetched := fetched w1 @ [u], files := fs4\<rparr>) = (r, w5)"
  shows "install_samples e url d q w
           = (r, w5\<lparr>files := AList.delete (mktemp (files w)) fs4\<rparr>)"
proof -
  let ?tmp = "mktemp (files w)"
  let ?w1 = "show_message q (''INFO: retrieving '' @ u) w1"
  let ?w2 = "?w1\<lparr>fetched := fetched ?w1 @ [u],
                  files := AList.update ?tmp (File body) (files w)\<rparr>"
  let ?w3 = "show_message q (''INFO: unzipping to directory '' @ d) ?w2"
  have fw: "files w1 = files w"
    using choose_url_frame(1) [OF assms(2)] .
  have a: "urlretrieve e u ?w1 = (Inr ?tmp, ?w2)"
    using urlretrieve_complete [OF assms(3), of ?w1] fw by (simp add: show_message_frame)
  have zo: "zipfile_open e ?tmp (files ?w3) = Inr ms"
    using assms(4) by (simp add: zipfile_open_def show_message_frame update_conv')
  have x4: "extractall d ms (files ?w3) = (Inr (), fs4)"
    using assms(5) by (simp add: show_message_frame)
  have same: "?w3\<lparr>files := fs4\<rparr>
              = show_message q (''INFO: unzipping to directory '' @ d) ?w1
                  \<lparr>fetched := fetched w1 @ [u], files := fs4\<rparr>"
    by (simp add: show_message_def)
  have t: "try_body e u d q w1 = (r, Some ?tmp, w5)"
    using a zo x4 assms(6) same by (simp add: try_body_def)
  have f5: "files w5 = fs4"
    using install_requirements_frame(1) [OF assms(6)] by simp
  have "os_path_isfile (files ?w3) ?tmp"
    by (simp add: show_message_frame isfile_iff update_conv')
  then have "os_path_isfile fs4 ?tmp"
    using x4 by (rule extractall_isfile)
  with f5 have "finally_clause (r, Some ?tmp, w5)
                  = (r, w5\<lparr>files := AList.delete ?tmp (files w5)\<rparr>)"
    using mktemp_not_empty by (simp add: finally_clause_removes)
  with assms(1,2) t f5 show ?thesis by (simp add: install_samples_def)
qed

lemma requirements_path:
  "localdir \<noteq> [] \<Longrightarrow> last localdir \<noteq> CHR ''/'' \<Longrightarrow>
     os_path_join localdir ''requirements.txt'' = localdir @ ''/requirements.txt''"
  by (simp add: os_path_join_def)

text \<open>
  Claim C6. When the check passes, the body arrives, the archive opens and every member
  is extracted, and \<open>requirements.txt\<close> is then a regular file directly under the
  destination, \<open>install_samples\<close> calls \<open>pip.main\<close> once, with
  \<open>['install', '-r', join(localdir, 'requirements.txt')]\<close>, and returns normally
  whatever exit status \<open>pip.main\<close> returns. The path is the one \<open>os.path.join\<close> builds,
  which is \<open>localdir/requirements.txt\<close> for a destination that is not empty and does
  not end in a separator (\<open>requirements_path\<close>). In the witness the package manager
  returns status 1.
\<close>

theorem requirements_installed:
  assumes "localdir_unusable (files w) localdir = Inr False"
      and "choose_url e url quiet w = (u, w1)"
      and "remote e u = Complete body"
      and "zip_members e body = Some ms"
      and "extractall localdir ms (AList.update (mktemp (files w)) (File body) (files w))
             = (Inr (), fs4)"
      and "os_path_isfile fs4 (os_path_join localdir ''requirements.txt'')"
      and "pip_main e [''install'', ''-r'', os_path_join localdir ''requirements.txt'']
             = Exit status"
  shows "fst (install_samples e url localdir quiet w) = Inr ()
       \<and> pip_calls (snd (install_samples e url localdir quiet w))
           = pip_calls w @ [[''install'', ''-r'', os_path_join localdir ''requirements.txt'']]"
proof -
  let ?w3 = "show_message quiet (''INFO: unzipping to directory '' @ localdir)
                (show_message quiet (''INFO: retrieving '' @ u) w1)
              \<lparr>fetched := fetched w1 @ [u], files := fs4\<rparr>"
  obtain r w5 where i: "install_requirements e localdir quiet ?w3 = (r, w5)"
    by (cases "install_requirements e localdir quiet ?w3")
  have pw: "pip_calls w1 = pip_calls w"
    using choose_url_frame(3) [OF assms(2)] .
  from i assms(6,7) pw
  have "r = Inr ()"
    and "pip_calls w5
           = pip_calls w @ [[''install'', ''-r'', os_path_join localdir ''requirements.txt'']]"
    by (auto simp: install_requirements_def Let_def show_message_frame)
  with install_samples_extracted [OF assms(1-5) i] show ?thesis by simp
qed

theorem requirements_installed_witness:
  "fst (install_samples scenario_env None ''out'' False scenario_world) = Inr ()
   \<and> pip_calls (snd (install_samples scenario_env None ''out'' False scenario_world))
       = [[''install'', ''-r'', ''out/requirements.txt'']]
   \<and> pip_main scenario_env [''install'', ''-r'', ''out/requirements.txt''] = Exit 1"
proof -
  have chk: "localdir_unusable (files scenario_world) ''out'' = Inr False"
    by (simp add: localdir_unusable_def os_path_lexists_def scenario_world_def)
  have cu: "choose_url scenario_env None False scenario_world
              = (''https://cntk.ai/Samples/CNTK-Samples-2-5-1.zip'',
                 show_message False unreleased_warning scenario_world)"
    by code_simp
  have rem: "remote scenario_env ''https://cntk.ai/Samples/CNTK-Samples-2-5-1.zip''
               = Complete ''PK-samples''"
    by (simp add: scenario_env_def)
  have zm: "zip_members scenario_env ''PK-samples''
              = Some [FileEntry ''requirements.txt'' ''numpy'',
                      FileEntry ''Examples/hello.py'' ''import cntk'']"
    by (simp add: scenario_env_def)
  have ex: "extractall ''out''
              [FileEntry ''requirements.txt'' ''numpy'',
               FileEntry ''Examples/hello.py'' ''import cntk'']
              (AList.update (mktemp (files scenario_world)) (File ''PK-samples'')
                 (files scenario_world))
            = (Inr (),
               [(''/tmp/tmp_'', File ''PK-samples''), (''out'', Dir),
                (''out/requirements.txt'', File ''numpy''), (''out/Examples'', Dir),
                (''out/Examples/hello.py'', File ''import cntk'')])"
    by code_simp
  have isf: "os_path_isfile
               [(''/tmp/tmp_'', File ''PK-samples''), (''out'', Dir),
                (''out/requirements.txt'', File ''numpy''), (''out/Examples'', Dir),
                (''out/Examples/hello.py'', File ''import cntk'')]
               (os_path_join ''out'' ''requirements.txt'')"
    by code_simp
  have pip: "pip_main scenario_env [''install'', ''-r'', os_path_join ''out'' ''requirements.txt'']
               = Exit 1"
    by (simp add: scenario_env_def)
  have j: "os_path_join ''out'' ''requirements.txt'' = ''out/requirements.txt''"
    by (simp add: os_path_join_def)
  from requirements_installed [OF chk cu rem zm ex isf pip] pip j show ?thesis
    by (simp add: scenario_world_def)
qed

text \<open>
  Claim C7. When the check passes, the body arrives, the archive opens and every member
  is extracted, and no regular file \<open>requirements.txt\<close> is directly under the
  destination, \<open>install_samples\<close> returns normally, calls the package manager not at
  all, and, unless quiet, its last printed text is the warning that the file does not
  exist (after the two \<open>INFO\<close> texts of the run).
\<close>

theorem requirements_missing:
  assumes "localdir_unusable (files w) localdir = Inr False"
      and "choose_url e url quiet w = (u, w1)"
      and "remote e u = Complete body"
      and "zip_members e body = Some ms"
      and "extractall localdir ms (AList.update (mktemp (files w)) (File body) (files w))
             = (Inr (), fs4)"
      and "\<not> os_path_isfile fs4 (os_path_join localdir ''requirements.txt'')"
  shows "fst (install_samples e url localdir quiet w) = Inr ()
       \<and> pip_calls (snd (install_samples e url localdir quiet w)) = pip_calls w
       \<and> printed (snd (install_samples e url localdir quiet w))
           = printed w1 @
             (if quiet then []
              else [''INFO: retrieving '' @ u,
                    ''INFO: unzipping to directory '' @ localdir,
                    ''WARNING: file '' @ os_path_join localdir ''requirements.txt'' @
                    '' does not exist, modules to run the samples may be missing''])"
proof -
  let ?w3 = "show_message quiet (''INFO: unzipping to directory '' @ localdir)
                (show_message quiet (''INFO: retrieving '' @ u) w1)
              \<lparr>fetched := fetched w1 @ [u], files := fs4\<rparr>"
  obtain r w5 where i: "install_requirements e localdir quiet ?w3 = (r, w5)"
    by (cases "install_requirements e localdir quiet ?w3")
  have pw: "pip_calls w1 = pip_calls w"
    using choose_url_frame(3) [OF assms(2)] .
  from i assms(6) pw
  have "r = Inr ()" and "pip_calls w5 = pip_calls w"
    and "printed w5
           = printed w1 @
             (if quiet then []
              else [''INFO: retrieving '' @ u,
                    ''INFO: unzipping to directory '' @ localdir,
                    ''WARNING: file '' @ os_path_join localdir ''requirements.txt'' @
                    '' does not exist, modules to run the samples may be missing''])"
    by (auto simp: install_requirements_def Let_def show_message_def)
  with install_samples_extracted [OF assms(1-5) i] show ?thesis by simp
qed

theorem requirements_missing_witness:
  "fst (install_samples scenario_env (Some ''https://example.org/plain.zip'') ''out'' False
          scenario_world) = Inr ()
   \<and> pip_calls (snd (install_samples scenario_env (Some ''https://example.org/plain.zip'')
          ''out'' False scenario_world)) = []
   \<and> printed (snd (install_samples scenario_env (Some ''https://example.org/plain.zip'')
          ''out'' False scenario_world))
       = [''INFO: retrieving https://example.org/plain.zip'',
          ''INFO: unzipping to directory out'',
          ''WARNING: file out/requirements.txt does not exist, modules to run the samples may be missing'']"
proof -
  have chk: "localdir_unusable (files scenario_world) ''out'' = Inr False"
    by (simp add: localdir_unusable_def os_path_lexists_def scenario_world_def)
  have cu: "choose_url scenario_env (Some ''https://example.org/plain.zip'') False scenario_world
              = (''https://example.org/plain.zip'', scenario_world)"
    by (simp add: choose_url_def py_not_def)
  have rem: "remote scenario_env ''https://example.org/plain.zip'' = Complete ''PK-plain''"
    by (simp add: scenario_env_def)
  have zm: "zip_members scenario_env ''PK-plain'' = Some [FileEntry ''hello.py'' ''import cntk'']"
    by (simp add: scenario_env_def)
  have ex: "extractall ''out'' [FileEntry ''hello.py'' ''import cntk'']
              (AList.update (mktemp (files scenario_world)) (File ''PK-plain'')
                 (files scenario_world))
            = (Inr (),
               [(''/tmp/tmp_'', File ''PK-plain''), (''out'', Dir),
                (''out/hello.py'', File ''import cntk'')])"
    by code_simp
  have isf: "\<not> os_path_isfile
               [(''/tmp/tmp_'', File ''PK-plain''), (''out'', Dir),
                (''out/hello.py'', File ''import cntk'')]
               (os_path_join ''out'' ''requirements.txt'')"
    by code_simp
  have j: "os_path_join ''out'' ''requirements.txt'' = ''out/requirements.txt''"
    by (simp add: os_path_join_def)
  from requirements_missing [OF chk cu rem zm ex isf] j show ?thesis
    by (simp add: scenario_world_def)
qed

subsection \<open>The default URL and the warning for an unreleased module\<close>

lemma default_sample_url_not_empty: "default_sample_url v \<noteq> []"
  by (simp add: default_sample_url_def Let_def)

lemma show_message_other:
  assumes "t \<noteq> unreleased_warning"
      and "unreleased_warning \<in> set (printed (show_message q t w))"
  shows "unreleased_warning \<in> set (printed w)"
  using assms by (auto simp: show_message_def split: if_splits)

lemma info_is_not_the_warning:
  "''INFO: retrieving '' @ u \<noteq> unreleased_warning"
  "''INFO: unzipping to directory '' @ d \<noteq> unreleased_warning"
  "''INFO: installing requirements'' \<noteq> unreleased_warning"
  "''WARNING: file '' @ f @ '' does not exist, modules to run the samples may be missing''
     \<noteq> unreleased_warning"
  by (simp_all add: unreleased_warning_def)

lemma install_requirements_no_warning:
  assumes "install_requirements e d q w = (r, w5)"
      and "unreleased_warning \<in> set (printed w5)"
  shows "unreleased_warning \<in> set (printed w)"
proof (cases "os_path_isfile (files w) (os_path_join d ''requirements.txt'')")
  case True
  with assms have "unreleased_warning
      \<in> set (printed (show_message q ''INFO: installing requirements'' w))"
    by (auto simp: install_requirements_def Let_def split: pip_outcome.splits)
  with info_is_not_the_warning(3) show ?thesis by (rule show_message_other)
next
  case False
  with assms have "unreleased_warning
      \<in> set (printed (show_message q
            (''WARNING: file '' @ os_path_join d ''requirements.txt'' @
             '' does not exist, modules to run the samples may be missing'') w))"
    by (auto simp: install_requirements_def Let_def)
  with info_is_not_the_warning(4) show ?thesis by (rule show_message_other)
qed

lemma try_body_no_warning:
  assumes "try_body e u d q w = (r, z, w5)"
      and "unreleased_warning \<in> set (printed w5)"
  shows "unreleased_warning \<in> set (printed w)"
proof -
  let ?w1 = "show_message q (''INFO: retrieving '' @ u) w"
  obtain r2 w2 where a: "urlretrieve e u ?w1 = (r2, w2)"
    by (cases "urlretrieve e u ?w1")
  have p2: "printed w2 = printed ?w1"
    using urlretrieve_frame(1) [OF a] .
  have back1: "unreleased_warning \<in> set (printed w2) \<Longrightarrow> unreleased_warning \<in> set (printed w)"
    using p2 show_message_other [OF info_is_not_the_warning(1)] by simp
  show ?thesis
  proof (cases r2)
    case (Inl x)
    with a assms have "w5 = w2" by (simp add: try_body_def)
    with assms(2) back1 show ?thesis by simp
  next
    case (Inr name)
    let ?w3 = "show_message q (''INFO: unzipping to directory '' @ d) w2"
    have back3: "unreleased_warning \<in> set (printed ?w3) \<Longrightarrow> unreleased_warning \<in> set (printed w)"
      using back1 show_message_other [OF info_is_not_the_warning(2)] by blast
    show ?thesis
    proof (cases "zipfile_open e name (files ?w3)")
      case (Inl x)
      with a Inr assms have "w5 = ?w3" by (simp add: try_body_def)
      with assms(2) back3 show ?thesis by simp
    next
      case zf: (Inr ms)
      obtain r4 fs4 where x4: "extractall d ms (files ?w3) = (r4, fs4)"
        by (cases "extractall d ms (files ?w3)")
      show ?thesis
      proof (cases r4)
        case (Inl y)
        with a Inr zf x4 assms have "w5 = ?w3\<lparr>files := fs4\<rparr>" by (simp add: try_body_def)
        with assms(2) back3 show ?thesis by simp
      next
        case y: (Inr un)
        obtain r5 w6 where i: "install_requirements e d q (?w3\<lparr>files := fs4\<rparr>) = (r5, w6)"
          by (cases "install_requirements e d q (?w3\<lparr>files := fs4\<rparr>)")
        with a Inr zf x4 y assms have "w5 = w6" by (simp add: try_body_def)
        with assms(2) install_requirements_no_warning [OF i]
        have "unreleased_warning \<in> set (printed (?w3\<lparr>files := fs4\<rparr>))" by simp
        with back3 show ?thesis by simp
      qed
    qed
  qed
qed

lemma install_samples_given_url:
  assumes "u \<noteq> []"
      and "unreleased_warning \<in> set (printed (snd (install_samples e (Some u) d q w)))"
  shows "unreleased_warning \<in> set (printed w)"
proof (cases "localdir_unusable (files w) d = Inr False")
  case False
  then have "snd (install_samples e (Some u) d q w) = w"
    by (auto simp: install_samples_def localdir_unusable_eq)
  with assms(2) show ?thesis by simp
next
  case True
  have c: "choose_url e (Some u) q w = (u, w)"
    using assms(1) by (simp add: choose_url_def py_not_def)
  obtain r z w5 where t: "try_body e u d q w = (r, z, w5)"
    by (cases "try_body e u d q w") auto
  have "printed (snd (finally_clause (r, z, w5))) = printed w5"
    by (rule finally_clause_printed)
  with True c t assms(2) have "unreleased_warning \<in> set (printed w5)"
    by (simp add: install_samples_def)
  with t show ?thesis by (rule try_body_no_warning)
qed

subsection \<open>The command line\<close>

text \<open>
  Claim C9, as amended. On a command line whose \<open>-u/--url\<close> is absent or not empty, the
  URL handed to \<open>install_samples\<close> is a non-empty string, never \<open>None\<close>: the default
  URL when the option is absent, the given string otherwise. The test \<open>not url\<close> of
  line 51 fails, lines 51 to 56 leave the URL and the world as they are, and the run
  prints no warning about an unreleased module, whatever the module version. In the
  witness the module is unreleased and no URL is given.
\<close>

theorem cli_warning_branch:
  assumes "arg_url a \<noteq> Some []"
  shows "\<not> py_not (Some (opt_url (parse_args e a)))
       \<and> opt_url (parse_args e a)
           = (case arg_url a of None \<Rightarrow> default_sample_url (cntk_version e) | Some u \<Rightarrow> u)
       \<and> choose_url e (Some (opt_url (parse_args e a))) (opt_quiet (parse_args e a)) w
           = (opt_url (parse_args e a), w)
       \<and> (unreleased_warning \<notin> set (printed w) \<longrightarrow>
            unreleased_warning \<notin> set (printed (snd (main e a w))))"
proof -
  let ?u = "opt_url (parse_args e a)"
  have ne: "?u \<noteq> []"
    using assms default_sample_url_not_empty
    by (cases "arg_url a") (simp_all add: parse_args_def)
  have given: "?u = (case arg_url a of None \<Rightarrow> default_sample_url (cntk_version e) | Some u \<Rightarrow> u)"
    by (simp add: parse_args_def)
  have chosen: "choose_url e (Some ?u) (opt_quiet (parse_args e a)) w = (?u, w)"
    using ne by (simp add: choose_url_def py_not_def)
  have silent: "unreleased_warning \<notin> set (printed w) \<longrightarrow>
                unreleased_warning \<notin> set (printed (snd (main e a w)))"
    using install_samples_given_url [OF ne, of e "opt_dir (parse_args e a)"
            "opt_quiet (parse_args e a)" w]
    by (auto simp: main_def Let_def)
  from ne given chosen silent show ?thesis by (simp add: py_not_def)
qed


theorem cli_warning_branch_witness:
  "module_is_unreleased (cntk_version scenario_env)
   \<and> \<not> py_not (Some (opt_url (parse_args scenario_env default_command_line)))
   \<and> opt_url (parse_args scenario_env default_command_line) = ''https://cntk.ai/Samples/CNTK-Samples-2-5-1.zip''
   \<and> unreleased_warning \<notin> set (printed (snd (main scenario_env default_command_line scenario_world)))"
proof -
  have h: "arg_url default_command_line \<noteq> Some []" by (simp add: default_command_line_def)
  have u: "module_is_unreleased (cntk_version scenario_env)" by code_simp
  have d: "default_sample_url (cntk_version scenario_env)
             = ''https://cntk.ai/Samples/CNTK-Samples-2-5-1.zip''" by code_simp
  have n: "arg_url default_command_line = None" by (simp add: default_command_line_def)
  from cli_warning_branch [OF h, of scenario_env scenario_world] u d n show ?thesis
    by (simp add: scenario_world_def py_not_def)
qed

text \<open>
  Claim C9 as stated says the branch is taken on no command line. An empty URL
  (\<open>-u ''\<close>) is a string \<open>argparse\<close> accepts; it is not the default URL, \<open>not url\<close>
  holds for it, and on an unreleased module the run prints the warning first and
  fetches the default URL.
\<close>

theorem cli_empty_url_takes_warning_branch:
  "module_is_unreleased (cntk_version scenario_env)
   \<and> opt_url (parse_args scenario_env empty_url_command_line) = []
   \<and> opt_url (parse_args scenario_env empty_url_command_line) \<noteq> default_sample_url (cntk_version scenario_env)
   \<and> py_not (Some (opt_url (parse_args scenario_env empty_url_command_line)))
   \<and> printed (snd (main scenario_env empty_url_command_line scenario_world))
       = [unreleased_warning,
          ''INFO: retrieving https://cntk.ai/Samples/CNTK-Samples-2-5-1.zip'',
          ''INFO: unzipping to directory out'',
          ''INFO: installing requirements'']"
  by code_simp

subsection \<open>The url argument\<close>

text \<open>
  Claim C10. \<open>install_samples\<close> does the same for \<open>url=None\<close> and \<open>url=''\<close>: the whole
  call has the same result and the same effects. In both cases the URL fetched is the
  one derived from the module version, and the warning is printed before anything else
  exactly when the module is unreleased and \<open>quiet\<close> is false.
\<close>

theorem falsy_url_uses_default:
  "install_samples e None localdir quiet w = install_samples e (Some []) localdir quiet w
   \<and> choose_url e None quiet w
       = (default_sample_url (cntk_version e),
          if module_is_unreleased (cntk_version e) \<and> \<not> quiet
          then w\<lparr>printed := printed w @ [unreleased_warning]\<rparr> else w)
   \<and> choose_url e (Some []) quiet w
       = (default_sample_url (cntk_version e),
          if module_is_unreleased (cntk_version e) \<and> \<not> quiet
          then w\<lparr>printed := printed w @ [unreleased_warning]\<rparr> else w)"
proof -
  have same: "choose_url e None quiet w = choose_url e (Some []) quiet w"
    by (simp add: choose_url_def py_not_def)
  have chosen: "choose_url e None quiet w
       = (default_sample_url (cntk_version e),
          if module_is_unreleased (cntk_version e) \<and> \<not> quiet
          then w\<lparr>printed := printed w @ [unreleased_warning]\<rparr> else w)"
    by (simp add: choose_url_def py_not_def show_message_def)
  have "install_samples e None localdir quiet w = install_samples e (Some []) localdir quiet w"
    by (simp only: install_samples_def same)
  with same chosen show ?thesis by simp
qed

theorem falsy_url_uses_default_witness:
  "install_samples scenario_env None ''out'' False scenario_world
     = install_samples scenario_env (Some []) ''out'' False scenario_world
   \<and> choose_url scenario_env (Some []) False scenario_world
       = (''https://cntk.ai/Samples/CNTK-Samples-2-5-1.zip'',
          scenario_world\<lparr>printed := [unreleased_warning]\<rparr>)
   \<and> fetched (snd (install_samples scenario_env (Some []) ''out'' False scenario_world))
       = [''https://cntk.ai/Samples/CNTK-Samples-2-5-1.zip'']"
proof -
  have u: "module_is_unreleased (cntk_version scenario_env)" by code_simp
  have d: "default_sample_url (cntk_version scenario_env)
             = ''https://cntk.ai/Samples/CNTK-Samples-2-5-1.zip''" by code_simp
  have f: "fetched (snd (install_samples scenario_env (Some []) ''out'' False scenario_world))
             = [''https://cntk.ai/Samples/CNTK-Samples-2-5-1.zip'']" by code_simp
  from falsy_url_uses_default [of scenario_env "''out''" False scenario_world] u d f
  show ?thesis by (simp add: scenario_world_def)
qed

end
